theory Spec2Isabelle
  imports Complex_Main
begin

section \<open>Numbers, errors and the view of one bar\<close>

text \<open>
  The three strategy classes and the sizer each have attributes of the same name
  (\<^verbatim>\<open>order\<close>, \<^verbatim>\<open>wins\<close>, \<^verbatim>\<open>losses\<close>, \<^verbatim>\<open>position_size\<close>, ...); a record field that
  would clash carries a prefix for its class (\<open>rsi_order\<close>, \<open>bol_order\<close>, \<open>rand_order\<close>,
  \<open>aps_wins\<close>).
\<close>

text \<open>
  The strategies compute with Python floats. They are modelled as \<^typ>\<open>real\<close>: rounding,
  infinities and NaN are left out, everything else (comparisons, division by zero raising
  \<^verbatim>\<open>ZeroDivisionError\<close>, \<^verbatim>\<open>max\<close>/\<^verbatim>\<open>min\<close>, \<^verbatim>\<open>abs\<close>) is as in the source. Logging
  (\<^verbatim>\<open>printlog\<close>) only prints and is left out.
\<close>

datatype py_error = ZeroDivisionError | OverflowError | ValueError

text \<open>\<^verbatim>\<open>a / b\<close> on Python floats.\<close>

definition py_div :: "real \<Rightarrow> real \<Rightarrow> py_error + real" where
  "py_div a b = (if b = 0 then Inl ZeroDivisionError else Inr (a / b))"


text \<open>Truthiness of a number that may be \<^verbatim>\<open>None\<close>: \<^verbatim>\<open>None\<close> and \<^verbatim>\<open>0\<close> are false.\<close>

definition truthy :: "real option \<Rightarrow> bool" where
  "truthy v = (case v of None \<Rightarrow> False | Some x \<Rightarrow> x \<noteq> 0)"

section \<open>\<^verbatim>\<open>position_sizer.py\<close>: class \<^verbatim>\<open>PositionSizer\<close>\<close>

definition kelly_criterion :: "real \<Rightarrow> real \<Rightarrow> real \<Rightarrow> real \<Rightarrow> real \<Rightarrow> real" where
  "kelly_criterion win_rate avg_win avg_loss max_leverage fraction =
     (if win_rate < 0 \<or> win_rate > 1 then 0
      else if avg_loss \<ge> 0 \<or> avg_win \<le> 0 then 0
      else if win_rate = 0 then 0
      else
        let kelly =
              (if win_rate = 1 then max_leverage
               else
                 let win_loss_ratio = \<bar>avg_win / avg_loss\<bar>
                 in win_rate - ((1 - win_rate) / win_loss_ratio));
            kelly = kelly * fraction
        in max 0 (min kelly max_leverage))"

definition fixed_fractional :: "real \<Rightarrow> real" where
  "fixed_fractional fraction = max 0 (min fraction 1)"

section \<open>What the engines exchange with the broker\<close>

text \<open>
  The order statuses of backtrader. The handlers name six of them; \<open>Created\<close>,
  \<open>Partial\<close> (a part of the order is filled, the rest is still open) and \<open>Expired\<close> take
  the handlers' last line like every status but Submitted and Accepted. The handlers only
  log in the branches of a completed sell and of Canceled, Margin and Rejected. An order
  notification carries the status,
  the side and the execution data; a closed-trade notification the profit figures. The
  source's \<^verbatim>\<open>trade.value\<close> is the field \<open>trade_value\<close> here.
\<close>

datatype order_status =
  Created | Submitted | Accepted | Partial | Completed | Canceled | Expired | Margin | Rejected

datatype side = Buy | Sell

record order_note =
  status :: order_status
  isbuy :: bool
  executed_price :: real
  executed_size :: real
  executed_comm :: real

text \<open>
  The handle that \<^verbatim>\<open>self.buy(size=...)\<close> and \<^verbatim>\<open>self.sell(size=...)\<close> return and that the
  strategy stores in \<^verbatim>\<open>self.order\<close>; it is also the order the broker receives.
\<close>

record order_intent =
  side :: side
  order_size :: real

text \<open>
  \<^verbatim>\<open>Strategy.buy\<close> and \<^verbatim>\<open>Strategy.sell\<close> of backtrader, called with a size: for a size
  of zero they submit nothing and return \<^verbatim>\<open>None\<close>; otherwise they pass the order with
  \<^verbatim>\<open>abs(size)\<close> to the broker and return it.
\<close>

definition submit :: "side \<Rightarrow> real \<Rightarrow> order_intent option" where
  "submit sd sz = (if sz \<noteq> 0 then Some \<lparr>side = sd, order_size = \<bar>sz\<bar>\<rparr> else None)"

record trade =
  isclosed :: bool
  pnl :: real
  pnlcomm :: real
  trade_value :: real

text \<open>
  What a strategy reads from its environment while it evaluates one bar: the close
  (\<^verbatim>\<open>self.data.close[0]\<close>), the indicator values (\<^verbatim>\<open>self.rsi[0]\<close>, the three Bollinger
  lines), the broker's cash and portfolio value, and the size of the broker's position
  (\<^verbatim>\<open>self.position.size\<close>; \<^verbatim>\<open>self.position\<close> is true when the size is not zero).
\<close>

record bar_view =
  close :: real
  rsi :: real
  bb_top :: real
  bb_mid :: real
  bb_bot :: real
  cash :: real
  portfolio_value :: real
  position :: real

datatype event = Bar bar_view | OrderNote order_note | TradeNote trade

section \<open>The trade-outcome history\<close>

text \<open>
  \<^verbatim>\<open>RSI_Strat.notify_trade\<close>, \<^verbatim>\<open>Bol_Strat.notify_trade\<close> and
  \<^verbatim>\<open>AdaptivePositionSizer.notify_trade\<close> have the same body on \<^verbatim>\<open>self.wins\<close> and
  \<^verbatim>\<open>self.losses\<close>; \<open>track_trade\<close> is that body, on the pair of the two lists.
\<close>

text \<open>\<^verbatim>\<open>xs[-100:]\<close>\<close>

definition last_100 :: "real list \<Rightarrow> real list" where
  "last_100 xs = drop (length xs - 100) xs"

definition trade_return :: "trade \<Rightarrow> real" where
  "trade_return t = (if trade_value t \<noteq> 0 then pnlcomm t / \<bar>trade_value t\<bar> else 0)"

definition track_trade :: "trade \<Rightarrow> real list \<times> real list \<Rightarrow> real list \<times> real list" where
  "track_trade t h =
     (if \<not> isclosed t then h
      else
        let (wins, losses) = h;
            (wins, losses) =
              (if pnlcomm t > 0 then (wins @ [trade_return t], losses)
               else (wins, losses @ [trade_return t]));
            wins = (if length wins > 100 then last_100 wins else wins);
            losses = (if length losses > 100 then last_100 losses else losses)
        in (wins, losses))"

section \<open>Sizing inside the strategies\<close>

text \<open>
  \<^verbatim>\<open>RSI_Strat.calculate_position_size\<close> and \<^verbatim>\<open>Bol_Strat.calculate_position_size\<close> have
  the same body; its arguments here are the three sizing parameters, the two history lists
  and the bar.
\<close>

definition min_trades_for_kelly :: nat where
  "min_trades_for_kelly = 20"

definition calculate_position_size ::
  "string \<Rightarrow> real \<Rightarrow> real \<Rightarrow> real list \<Rightarrow> real list \<Rightarrow> bar_view \<Rightarrow> py_error + real" where
  "calculate_position_size position_method position_size kelly_frac wins losses b =
     (let current_price = close b in
      if position_method = ''kelly'' then
        let total_trades = length wins + length losses in
        if total_trades \<ge> min_trades_for_kelly then
          let win_rate = real (length wins) / real total_trades;
              avg_win = (if wins \<noteq> [] then sum_list wins / real (length wins) else 0.02);
              avg_loss = (if losses \<noteq> [] then sum_list losses / real (length losses) else - 0.015);
              kelly_fraction = kelly_criterion win_rate avg_win avg_loss 1 kelly_frac
          in
            if kelly_fraction > 0 then py_div (portfolio_value b * kelly_fraction) current_price
            else py_div (cash b * position_size) current_price
        else py_div (cash b * position_size) current_price
      else py_div (cash b * position_size) current_price)"

section \<open>\<^verbatim>\<open>RSI_Strat\<close>\<close>

record RSI_params =
  rsi_period :: int
  rsi_oversold :: real
  rsi_overbought :: real
  rsi_position_method :: string
  rsi_position_size :: real
  rsi_kelly_fraction :: real

record RSI_state =
  rsi_order :: "order_intent option"
  buy_price :: "real option"
  buy_comm :: "real option"
  rsi_wins :: "real list"
  rsi_losses :: "real list"

definition RSI_init :: RSI_state where
  "RSI_init = \<lparr>rsi_order = None, buy_price = None, buy_comm = None, rsi_wins = [], rsi_losses = []\<rparr>"

definition RSI_notify_order :: "RSI_state \<Rightarrow> order_note \<Rightarrow> RSI_state" where
  "RSI_notify_order s ord =
     (if status ord \<in> {Submitted, Accepted} then s
      else
        let s =
              (if status ord \<in> {Completed} then
                 (if isbuy ord then
                    s\<lparr>buy_price := Some (executed_price ord), buy_comm := Some (executed_comm ord)\<rparr>
                  else s)
               else if status ord \<in> {Canceled, Margin, Rejected} then s
               else s)
        in s\<lparr>rsi_order := None\<rparr>)"

definition RSI_notify_trade :: "RSI_state \<Rightarrow> trade \<Rightarrow> RSI_state" where
  "RSI_notify_trade s t =
     (let (wins, losses) = track_trade t (rsi_wins s, rsi_losses s)
      in s\<lparr>rsi_wins := wins, rsi_losses := losses\<rparr>)"

definition RSI_next ::
  "RSI_params \<Rightarrow> RSI_state \<Rightarrow> bar_view \<Rightarrow> py_error + (RSI_state \<times> order_intent option)" where
  "RSI_next P s b =
     (if rsi_order s \<noteq> None then Inr (s, None)
      else
        let current_rsi = rsi b in
        if \<not> (position b \<noteq> 0) then
          (if current_rsi < rsi_oversold P then
             (case calculate_position_size (rsi_position_method P) (rsi_position_size P)
                     (rsi_kelly_fraction P) (rsi_wins s) (rsi_losses s) b of
                Inl e \<Rightarrow> Inl e
              | Inr sz \<Rightarrow>
                  let ord = submit Buy sz
                  in Inr (s\<lparr>rsi_order := ord\<rparr>, ord))
           else Inr (s, None))
        else
          (if current_rsi > rsi_overbought P then
             let ord = submit Sell (position b)
             in Inr (s\<lparr>rsi_order := ord\<rparr>, ord)
           else Inr (s, None)))"

section \<open>\<^verbatim>\<open>Bol_Strat\<close>\<close>

record Bol_params =
  bb_period :: int
  bb_devfactor :: real
  bol_position_method :: string
  bol_position_size :: real
  bol_kelly_fraction :: real
  exit_on_middle :: bool
  stop_loss_pct :: "real option"
  take_profit_pct :: "real option"

record Bol_state =
  bol_order :: "order_intent option"
  entry_price :: "real option"
  entry_comm :: "real option"
  bol_wins :: "real list"
  bol_losses :: "real list"

definition Bol_init :: Bol_state where
  "Bol_init =
     \<lparr>bol_order = None, entry_price = None, entry_comm = None, bol_wins = [], bol_losses = []\<rparr>"

definition Bol_notify_order :: "Bol_state \<Rightarrow> order_note \<Rightarrow> Bol_state" where
  "Bol_notify_order s ord =
     (if status ord \<in> {Submitted, Accepted} then s
      else
        let s =
              (if status ord \<in> {Completed} then
                 (if isbuy ord then
                    s\<lparr>entry_price := Some (executed_price ord),
                      entry_comm := Some (executed_comm ord)\<rparr>
                  else s\<lparr>entry_price := None\<rparr>)
               else if status ord \<in> {Canceled, Margin, Rejected} then s
               else s)
        in s\<lparr>bol_order := None\<rparr>)"

definition Bol_notify_trade :: "Bol_state \<Rightarrow> trade \<Rightarrow> Bol_state" where
  "Bol_notify_trade s t =
     (let (wins, losses) = track_trade t (bol_wins s, bol_losses s)
      in s\<lparr>bol_wins := wins, bol_losses := losses\<rparr>)"

text \<open>
  The chain of exit conditions of \<^verbatim>\<open>Bol_Strat.next\<close>. The result \<open>None\<close> is
  \<^verbatim>\<open>should_exit = False\<close>; \<open>Some r\<close> is \<^verbatim>\<open>should_exit = True\<close> with the exit reason
  whose text starts as \<open>r\<close> names it. The stop-loss and the take-profit branch test the
  price in an \<^verbatim>\<open>if\<close> nested inside the \<^verbatim>\<open>elif\<close>.
\<close>

datatype exit_reason = UpperBand | MiddleBand | StopLoss | TakeProfit

definition Bol_exit_check :: "Bol_params \<Rightarrow> Bol_state \<Rightarrow> bar_view \<Rightarrow> exit_reason option" where
  "Bol_exit_check P s b =
     (let current_price = close b in
      if current_price > bb_top b then Some UpperBand
      else if exit_on_middle P \<and> current_price > bb_mid b then Some MiddleBand
      else if truthy (stop_loss_pct P) \<and> truthy (entry_price s) then
        (let stop_price = the (entry_price s) * (1 - the (stop_loss_pct P) / 100)
         in if current_price < stop_price then Some StopLoss else None)
      else if truthy (take_profit_pct P) \<and> truthy (entry_price s) then
        (let target_price = the (entry_price s) * (1 + the (take_profit_pct P) / 100)
         in if current_price > target_price then Some TakeProfit else None)
      else None)"

definition Bol_next ::
  "Bol_params \<Rightarrow> Bol_state \<Rightarrow> bar_view \<Rightarrow>
   py_error + (Bol_state \<times> order_intent option \<times> exit_reason option)" where
  "Bol_next P s b =
     (if bol_order s \<noteq> None then Inr (s, None, None)
      else
        let current_price = close b in
        if \<not> (position b \<noteq> 0) then
          (if current_price < bb_bot b then
             (case calculate_position_size (bol_position_method P) (bol_position_size P)
                     (bol_kelly_fraction P) (bol_wins s) (bol_losses s) b of
                Inl e \<Rightarrow> Inl e
              | Inr sz \<Rightarrow>
                  let ord = submit Buy sz
                  in Inr (s\<lparr>bol_order := ord\<rparr>, ord, None))
           else Inr (s, None, None))
        else
          (case Bol_exit_check P s b of
             Some r \<Rightarrow>
               let ord = submit Sell (position b)
               in Inr (s\<lparr>bol_order := ord\<rparr>, ord, Some r)
           | None \<Rightarrow> Inr (s, None, None)))"

section \<open>\<^verbatim>\<open>Rand_Strat\<close>\<close>

text \<open>
  \<^verbatim>\<open>Rand_Strat\<close> calls \<^verbatim>\<open>random.seed\<close> and \<^verbatim>\<open>random.random\<close>, the functions of Python's
  module-level generator: one generator for the whole process. Its state has the type
  \<open>'g\<close> and is threaded through every call; the generator itself is a parameter of the
  model: \<open>seedf\<close> gives the state that \<^verbatim>\<open>random.seed(n)\<close> installs, \<open>randomf\<close> the draw
  of \<^verbatim>\<open>random.random()\<close> and the state after it.
\<close>

record Rand_params =
  trade_probability :: real
  rand_position_size :: real
  hold_bars :: int
  seed :: "int option"

record Rand_state =
  rand_order :: "order_intent option"
  bar_count_in_position :: int

definition Rand_init :: "(int \<Rightarrow> 'g) \<Rightarrow> Rand_params \<Rightarrow> 'g \<Rightarrow> 'g \<times> Rand_state" where
  "Rand_init seedf P g =
     ((case seed P of None \<Rightarrow> g | Some n \<Rightarrow> seedf n),
      \<lparr>rand_order = None, bar_count_in_position = 0\<rparr>)"

definition Rand_notify_order :: "Rand_state \<Rightarrow> order_note \<Rightarrow> Rand_state" where
  "Rand_notify_order s ord =
     (if status ord \<in> {Submitted, Accepted} then s
      else
        let s =
              (if status ord \<in> {Completed} then
                 (if isbuy ord then s\<lparr>bar_count_in_position := 0\<rparr> else s)
               else if status ord \<in> {Canceled, Margin, Rejected} then s
               else s)
        in s\<lparr>rand_order := None\<rparr>)"

definition Rand_notify_trade :: "Rand_state \<Rightarrow> trade \<Rightarrow> Rand_state" where
  "Rand_notify_trade s t = s"

definition Rand_next ::
  "('g \<Rightarrow> real \<times> 'g) \<Rightarrow> Rand_params \<Rightarrow> 'g \<times> Rand_state \<Rightarrow> bar_view \<Rightarrow>
   py_error + ('g \<times> Rand_state \<times> order_intent option)" where
  "Rand_next randomf P gs b =
     (let (g, s) = gs in
      if rand_order s \<noteq> None then Inr (g, s, None)
      else
        let s = (if position b \<noteq> 0
                 then s\<lparr>bar_count_in_position := bar_count_in_position s + 1\<rparr> else s);
            (u, g) = randomf g;
            should_trade = (u < trade_probability P)
        in
          if \<not> should_trade then Inr (g, s, None)
          else if \<not> (position b \<noteq> 0) then
            (case py_div (cash b * rand_position_size P) (close b) of
               Inl e \<Rightarrow> Inl e
             | Inr sz \<Rightarrow>
                 let ord = submit Buy sz
                 in Inr (g, s\<lparr>rand_order := ord\<rparr>, ord))
          else if bar_count_in_position s \<ge> hold_bars P then
            (let ord = submit Sell (position b)
             in Inr (g, s\<lparr>rand_order := ord\<rparr>, ord))
          else Inr (g, s, None))"

subsection \<open>Running random strategies in one process\<close>

definition Rand_handle ::
  "('g \<Rightarrow> real \<times> 'g) \<Rightarrow> Rand_params \<Rightarrow> 'g \<times> Rand_state \<Rightarrow> event \<Rightarrow>
   py_error + ('g \<times> Rand_state \<times> order_intent option)" where
  "Rand_handle randomf P gs ev =
     (case ev of
        Bar b \<Rightarrow> Rand_next randomf P gs b
      | OrderNote ord \<Rightarrow> Inr (fst gs, Rand_notify_order (snd gs) ord, None)
      | TradeNote t \<Rightarrow> Inr (fst gs, Rand_notify_trade (snd gs) t, None))"

text \<open>
  One instance consumes a list of events; the result lists, event by event, the order it
  submitted (or \<open>None\<close>). An exception ends the run.
\<close>

fun Rand_feed ::
  "('g \<Rightarrow> real \<times> 'g) \<Rightarrow> Rand_params \<Rightarrow> 'g \<times> Rand_state \<Rightarrow> event list \<Rightarrow>
   py_error + ('g \<times> Rand_state \<times> order_intent option list)" where
  "Rand_feed randomf P gs [] = Inr (fst gs, snd gs, [])"
| "Rand_feed randomf P gs (ev # evs) =
     (case Rand_handle randomf P gs ev of
        Inl e \<Rightarrow> Inl e
      | Inr (g, s, d) \<Rightarrow>
          (case Rand_feed randomf P (g, s) evs of
             Inl e \<Rightarrow> Inl e
           | Inr (g', s', ds) \<Rightarrow> Inr (g', s', d # ds)))"

text \<open>
  A run on its own: the instance is constructed in a process whose generator is in state
  \<open>g\<close>, and no one else draws until its last event.
\<close>

definition Rand_run ::
  "(int \<Rightarrow> 'g) \<Rightarrow> ('g \<Rightarrow> real \<times> 'g) \<Rightarrow> Rand_params \<Rightarrow> 'g \<Rightarrow> event list \<Rightarrow>
   py_error + ('g \<times> Rand_state \<times> order_intent option list)" where
  "Rand_run seedf randomf P g evs = Rand_feed randomf P (Rand_init seedf P g) evs"

text \<open>
  Two instances in one process, one after the other: the second is constructed when the
  first has consumed its last event.
\<close>

definition Rand_run_sequential ::
  "(int \<Rightarrow> 'g) \<Rightarrow> ('g \<Rightarrow> real \<times> 'g) \<Rightarrow> Rand_params \<Rightarrow> 'g \<Rightarrow> event list \<Rightarrow>
   py_error + (order_intent option list \<times> order_intent option list)" where
  "Rand_run_sequential seedf randomf P g evs =
     (case Rand_run seedf randomf P g evs of
        Inl e \<Rightarrow> Inl e
      | Inr (g, s1, ds1) \<Rightarrow>
          (case Rand_run seedf randomf P g evs of
             Inl e \<Rightarrow> Inl e
           | Inr (g, s2, ds2) \<Rightarrow> Inr (ds1, ds2)))"

text \<open>
  Two instances in one process, interleaved: every event goes to the first instance and
  then to the second, and both draw from the one generator of the process.
\<close>

fun Rand_feed2 ::
  "('g \<Rightarrow> real \<times> 'g) \<Rightarrow> Rand_params \<Rightarrow> 'g \<times> Rand_state \<times> Rand_state \<Rightarrow> event list \<Rightarrow>
   py_error + (order_intent option list \<times> order_intent option list)" where
  "Rand_feed2 randomf P gss [] = Inr ([], [])"
| "Rand_feed2 randomf P gss (ev # evs) =
     (case gss of (g, s1, s2) \<Rightarrow>
        (case Rand_handle randomf P (g, s1) ev of
           Inl e \<Rightarrow> Inl e
         | Inr (g, s1, d1) \<Rightarrow>
             (case Rand_handle randomf P (g, s2) ev of
                Inl e \<Rightarrow> Inl e
              | Inr (g, s2, d2) \<Rightarrow>
                  (case Rand_feed2 randomf P (g, s1, s2) evs of
                     Inl e \<Rightarrow> Inl e
                   | Inr (ds1, ds2) \<Rightarrow> Inr (d1 # ds1, d2 # ds2)))))"

definition Rand_run_interleaved ::
  "(int \<Rightarrow> 'g) \<Rightarrow> ('g \<Rightarrow> real \<times> 'g) \<Rightarrow> Rand_params \<Rightarrow> 'g \<Rightarrow> event list \<Rightarrow>
   py_error + (order_intent option list \<times> order_intent option list)" where
  "Rand_run_interleaved seedf randomf P g evs =
     (let (g, s1) = Rand_init seedf P g;
          (g, s2) = Rand_init seedf P g
      in Rand_feed2 randomf P (g, s1, s2) evs)"

text \<open>
  A generator to run the model on. Its state is the list of the draws still to come;
  seeding with 42 installs the first four draws that CPython's generator returns after
  \<^verbatim>\<open>random.seed(42)\<close>.
\<close>

definition replay_seed :: "int \<Rightarrow> real list" where
  "replay_seed n =
     (if n = 42 then
        [0.6394267984578837, 0.025010755222666936, 0.27502931836911926, 0.22321073814882275]
      else [])"

definition replay_random :: "real list \<Rightarrow> real \<times> real list" where
  "replay_random g = (case g of [] \<Rightarrow> (0, []) | u # us \<Rightarrow> (u, us))"

section \<open>\<^verbatim>\<open>position_sizer.py\<close>: class \<^verbatim>\<open>AdaptivePositionSizer\<close>\<close>

record APS_params =
  aps_method :: string
  aps_kelly_fraction :: real
  fixed_size :: real
  min_trades :: int
  max_position :: real
  min_position :: real

record APS_state =
  aps_wins :: "real list"
  aps_losses :: "real list"

definition APS_init :: APS_state where
  "APS_init = \<lparr>aps_wins = [], aps_losses = []\<rparr>"

text \<open>
  \<^verbatim>\<open>_getsizing\<close> averages with \<^verbatim>\<open>np.mean\<close>, whose result is a \<^verbatim>\<open>numpy.float64\<close>, not a
  Python float. The two differ on division by zero: a Python float raises
  \<^verbatim>\<open>ZeroDivisionError\<close>, a \<^verbatim>\<open>numpy.float64\<close> gives an infinity or NaN, which \<^verbatim>\<open>int\<close> then
  refuses with \<^verbatim>\<open>OverflowError\<close> or \<^verbatim>\<open>ValueError\<close>. So the numbers of the sizer carry
  their kind. Arithmetic with a \<^verbatim>\<open>numpy.float64\<close> operand gives a \<^verbatim>\<open>numpy.float64\<close>;
  \<^verbatim>\<open>min(a, b)\<close> and \<^verbatim>\<open>max(a, b)\<close> return one of their arguments: \<^verbatim>\<open>a\<close>, unless \<^verbatim>\<open>b\<close>
  is strictly smaller (larger).
\<close>

datatype pynum = PyFloat real | NpFloat real

fun num_val :: "pynum \<Rightarrow> real" where
  "num_val (PyFloat x) = x"
| "num_val (NpFloat x) = x"

fun is_numpy :: "pynum \<Rightarrow> bool" where
  "is_numpy (PyFloat x) = False"
| "is_numpy (NpFloat x) = True"

definition num_op :: "(real \<Rightarrow> real \<Rightarrow> real) \<Rightarrow> pynum \<Rightarrow> pynum \<Rightarrow> pynum" where
  "num_op f a b =
     (if is_numpy a \<or> is_numpy b then NpFloat (f (num_val a) (num_val b))
      else PyFloat (f (num_val a) (num_val b)))"

definition num_abs :: "pynum \<Rightarrow> pynum" where
  "num_abs a = (case a of PyFloat x \<Rightarrow> PyFloat \<bar>x\<bar> | NpFloat x \<Rightarrow> NpFloat \<bar>x\<bar>)"

definition num_min :: "pynum \<Rightarrow> pynum \<Rightarrow> pynum" where
  "num_min a b = (if num_val b < num_val a then b else a)"

definition num_max :: "pynum \<Rightarrow> pynum \<Rightarrow> pynum" where
  "num_max a b = (if num_val b > num_val a then b else a)"

text \<open>\<^verbatim>\<open>np.mean\<close> of a non-empty list.\<close>

definition np_mean :: "real list \<Rightarrow> pynum" where
  "np_mean xs = NpFloat (sum_list xs / real (length xs))"

text \<open>
  \<^verbatim>\<open>PositionSizer.kelly_criterion\<close> as the sizer calls it: the win rate, the maximum
  leverage and the fraction are Python floats, the two averages may be \<^verbatim>\<open>numpy.float64\<close>.
  Its value is that of \<open>kelly_criterion\<close> (lemma \<open>num_val_kelly_criterion_obj\<close>).
\<close>

definition kelly_criterion_obj :: "real \<Rightarrow> pynum \<Rightarrow> pynum \<Rightarrow> real \<Rightarrow> real \<Rightarrow> pynum" where
  "kelly_criterion_obj win_rate avg_win avg_loss max_leverage fraction =
     (if win_rate < 0 \<or> win_rate > 1 then PyFloat 0
      else if num_val avg_loss \<ge> 0 \<or> num_val avg_win \<le> 0 then PyFloat 0
      else if win_rate = 0 then PyFloat 0
      else
        let kelly =
              (if win_rate = 1 then PyFloat max_leverage
               else
                 let win_loss_ratio = num_abs (num_op (/) avg_win avg_loss)
                 in num_op (-) (PyFloat win_rate)
                      (num_op (/) (PyFloat (1 - win_rate)) win_loss_ratio));
            kelly = num_op (\<lambda>x y. x * y) kelly (PyFloat fraction)
        in num_max (PyFloat 0) (num_min kelly (PyFloat max_leverage)))"

text \<open>
  The capital fraction that \<^verbatim>\<open>_getsizing\<close> computes for a buy: the local variable
  \<^verbatim>\<open>position_fraction\<close> after the line \<^verbatim>\<open># Ensure within bounds\<close>.
\<close>

definition APS_position_fraction_obj :: "APS_params \<Rightarrow> APS_state \<Rightarrow> pynum" where
  "APS_position_fraction_obj P s =
     (let wins = aps_wins s; losses = aps_losses s;
          position_fraction =
            (if aps_method P = ''kelly'' \<and> int (length wins + length losses) \<ge> min_trades P then
               let total_trades = length wins + length losses;
                   win_rate = (if total_trades > 0 then real (length wins) / real total_trades
                               else 0.5);
                   avg_win = (if wins \<noteq> [] then np_mean wins else PyFloat 0.02);
                   avg_loss = (if losses \<noteq> [] then np_mean losses else PyFloat (- 0.015))
               in kelly_criterion_obj win_rate avg_win avg_loss (max_position P)
                    (aps_kelly_fraction P)
             else PyFloat (fixed_size P))
      in num_max (PyFloat (min_position P)) (num_min position_fraction (PyFloat (max_position P))))"

definition APS_position_fraction :: "APS_params \<Rightarrow> APS_state \<Rightarrow> real" where
  "APS_position_fraction P s = num_val (APS_position_fraction_obj P s)"



definition APS_notify_trade :: "APS_state \<Rightarrow> trade \<Rightarrow> APS_state" where
  "APS_notify_trade s t =
     (let (wins, losses) = track_trade t (aps_wins s, aps_losses s)
      in s\<lparr>aps_wins := wins, aps_losses := losses\<rparr>)"

section \<open>Runs of a strategy\<close>

text \<open>
  The driver delivers bars, order notifications and trade notifications one at a time. The
  trace of a run pairs every event with the order the strategy submitted while handling it
  (\<open>None\<close> when it submitted nothing); an exception ends the run and the trace.
\<close>

definition RSI_handle ::
  "RSI_params \<Rightarrow> RSI_state \<Rightarrow> event \<Rightarrow> py_error + (RSI_state \<times> order_intent option)" where
  "RSI_handle P s ev =
     (case ev of
        Bar b \<Rightarrow> RSI_next P s b
      | OrderNote ord \<Rightarrow> Inr (RSI_notify_order s ord, None)
      | TradeNote t \<Rightarrow> Inr (RSI_notify_trade s t, None))"

fun RSI_trace ::
  "RSI_params \<Rightarrow> RSI_state \<Rightarrow> event list \<Rightarrow> (event \<times> order_intent option) list" where
  "RSI_trace P s [] = []"
| "RSI_trace P s (ev # evs) =
     (case RSI_handle P s ev of
        Inl e \<Rightarrow> []
      | Inr (s', d) \<Rightarrow> (ev, d) # RSI_trace P s' evs)"

definition Bol_handle ::
  "Bol_params \<Rightarrow> Bol_state \<Rightarrow> event \<Rightarrow>
   py_error + (Bol_state \<times> order_intent option \<times> exit_reason option)" where
  "Bol_handle P s ev =
     (case ev of
        Bar b \<Rightarrow> Bol_next P s b
      | OrderNote ord \<Rightarrow> Inr (Bol_notify_order s ord, None, None)
      | TradeNote t \<Rightarrow> Inr (Bol_notify_trade s t, None, None))"

fun Bol_trace ::
  "Bol_params \<Rightarrow> Bol_state \<Rightarrow> event list \<Rightarrow> (event \<times> order_intent option) list" where
  "Bol_trace P s [] = []"
| "Bol_trace P s (ev # evs) =
     (case Bol_handle P s ev of
        Inl e \<Rightarrow> []
      | Inr (s', d, r) \<Rightarrow> (ev, d) # Bol_trace P s' evs)"

fun Rand_trace ::
  "('g \<Rightarrow> real \<times> 'g) \<Rightarrow> Rand_params \<Rightarrow> 'g \<times> Rand_state \<Rightarrow> event list \<Rightarrow>
   (event \<times> order_intent option) list" where
  "Rand_trace randomf P gs [] = []"
| "Rand_trace randomf P gs (ev # evs) =
     (case Rand_handle randomf P gs ev of
        Inl e \<Rightarrow> []
      | Inr (g, s, d) \<Rightarrow> (ev, d) # Rand_trace randomf P (g, s) evs)"

section \<open>Helpers for stating the properties\<close>

text \<open>
  The discipline of one order at a time, read off a trace. An order counts as outstanding
  from the bar that submits it to the next order notification whose status is neither
  Submitted nor Accepted. The predicate holds when no order is submitted while one is
  outstanding, and none while a notification is handled; its first argument says whether
  an order is outstanding when the trace starts.
\<close>

fun single_outstanding :: "bool \<Rightarrow> (event \<times> order_intent option) list \<Rightarrow> bool" where
  "single_outstanding pending [] = True"
| "single_outstanding pending ((Bar b, d) # tr) =
     (if pending then d = None \<and> single_outstanding True tr
      else single_outstanding (d \<noteq> None) tr)"
| "single_outstanding pending ((OrderNote ord, d) # tr) =
     (d = None \<and> single_outstanding (pending \<and> status ord \<in> {Submitted, Accepted}) tr)"
| "single_outstanding pending ((TradeNote t, d) # tr) =
     (d = None \<and> single_outstanding pending tr)"

text \<open>A closed trade with a positive net profit goes to the wins, every other closed trade to the losses.\<close>

definition is_win :: "trade \<Rightarrow> bool" where
  "is_win t = (isclosed t \<and> pnlcomm t > 0)"

definition is_loss :: "trade \<Rightarrow> bool" where
  "is_loss t = (isclosed t \<and> \<not> pnlcomm t > 0)"

text \<open>Sample inputs.\<close>

definition wins_105 :: "trade list" where
  "wins_105 =
     map (\<lambda>n. \<lparr>isclosed = True, pnl = real n + 2, pnlcomm = real n + 1, trade_value = 1\<rparr>) [0..<105]"

definition zero_value_win :: trade where
  "zero_value_win = \<lparr>isclosed = True, pnl = 6, pnlcomm = 5, trade_value = 0\<rparr>"

definition break_even :: trade where
  "break_even = \<lparr>isclosed = True, pnl = 1, pnlcomm = 0, trade_value = 10\<rparr>"

definition four_trades :: "trade list" where
  "four_trades =
     [zero_value_win, break_even,
      \<lparr>isclosed = True, pnl = - 2, pnlcomm = - 3, trade_value = - 10\<rparr>,
      \<lparr>isclosed = True, pnl = 3, pnlcomm = 2, trade_value = 10\<rparr>]"

definition rsi_defaults :: RSI_params where
  "rsi_defaults =
     \<lparr>rsi_period = 14, rsi_oversold = 20, rsi_overbought = 80,
      rsi_position_method = ''fixed'', rsi_position_size = 0.02, rsi_kelly_fraction = 0.25\<rparr>"

definition bol_defaults :: Bol_params where
  "bol_defaults =
     \<lparr>bb_period = 20, bb_devfactor = 2, bol_position_method = ''fixed'',
      bol_position_size = 0.02, bol_kelly_fraction = 0.25, exit_on_middle = True,
      stop_loss_pct = None, take_profit_pct = None\<rparr>"

definition rand_example :: Rand_params where
  "rand_example =
     \<lparr>trade_probability = 0.5, rand_position_size = 0.02, hold_bars = 10, seed = Some 42\<rparr>"


text \<open>A bar on which a flat RSI strategy and a flat Bollinger strategy both want to buy.\<close>

definition entry_bar :: bar_view where
  "entry_bar =
     \<lparr>close = 100, rsi = 15, bb_top = 110, bb_mid = 105, bb_bot = 102, cash = 10000,
      portfolio_value = 10000, position = 0\<rparr>"

definition buy_2 :: order_intent where
  "buy_2 = \<lparr>side = Buy, order_size = 2\<rparr>"

definition accepted_note :: order_note where
  "accepted_note =
     \<lparr>status = Accepted, isbuy = True, executed_price = 0, executed_size = 0, executed_comm = 0\<rparr>"

definition rejected_note :: order_note where
  "rejected_note =
     \<lparr>status = Rejected, isbuy = True, executed_price = 0, executed_size = 0, executed_comm = 0\<rparr>"

text \<open>
  Half of the buy of 2 units is filled: the notification, and a later bar on which the RSI
  strategy, now holding 1 unit, wants to sell.
\<close>

definition partial_note :: order_note where
  "partial_note =
     \<lparr>status = Partial, isbuy = True, executed_price = 100, executed_size = 1,
      executed_comm = 0.01\<rparr>"

definition half_filled_bar :: bar_view where
  "half_filled_bar =
     \<lparr>close = 120, rsi = 85, bb_top = 130, bb_mid = 125, bb_bot = 110, cash = 9900,
      portfolio_value = 10020, position = 1\<rparr>"

definition sell_1 :: order_intent where
  "sell_1 = \<lparr>side = Sell, order_size = 1\<rparr>"





text \<open>Both a stop loss of 5 percent and a take profit of 10 percent are configured.\<close>

definition bol_stop_and_target :: Bol_params where
  "bol_stop_and_target = bol_defaults\<lparr>stop_loss_pct := Some 5, take_profit_pct := Some 10\<rparr>"

definition bol_target_only :: Bol_params where
  "bol_target_only = bol_defaults\<lparr>take_profit_pct := Some 10\<rparr>"

definition bol_holding :: Bol_state where
  "bol_holding =
     \<lparr>bol_order = None, entry_price = Some 100, entry_comm = Some 0.02, bol_wins = [],
      bol_losses = []\<rparr>"

text \<open>
  A bar at 120 while 2 units are held: below the middle band (125) and the upper band (130),
  above the take-profit target of an entry at 100.
\<close>

definition target_bar :: bar_view where
  "target_bar =
     \<lparr>close = 120, rsi = 60, bb_top = 130, bb_mid = 125, bb_bot = 110, cash = 9800,
      portfolio_value = 10040, position = 2\<rparr>"

definition sell_2 :: order_intent where
  "sell_2 = \<lparr>side = Sell, order_size = 2\<rparr>"

definition buy_filled :: order_note where
  "buy_filled =
     \<lparr>status = Completed, isbuy = True, executed_price = 100, executed_size = 2,
      executed_comm = 0.02\<rparr>"

definition sell_filled :: order_note where
  "sell_filled =
     \<lparr>status = Completed, isbuy = False, executed_price = 120, executed_size = - 2,
      executed_comm = 0.024\<rparr>"

definition rsi_holding :: RSI_state where
  "rsi_holding =
     \<lparr>rsi_order = None, buy_price = Some 100, buy_comm = Some 0.02, rsi_wins = [],
      rsi_losses = []\<rparr>"

text \<open>A bar on which an RSI strategy holding 2 units wants to sell.\<close>

definition exit_bar :: bar_view where
  "exit_bar =
     \<lparr>close = 120, rsi = 85, bb_top = 130, bb_mid = 125, bb_bot = 110, cash = 9800,
      portfolio_value = 10040, position = 2\<rparr>"

section \<open>Properties of the Kelly computation\<close>

lemma kelly_criterion_clamped:
  "0 \<le> max_leverage \<Longrightarrow>
   0 \<le> kelly_criterion win_rate avg_win avg_loss max_leverage fraction \<and>
   kelly_criterion win_rate avg_win avg_loss max_leverage fraction \<le> max_leverage"
  by (simp add: kelly_criterion_def Let_def)

text \<open>
  C5. For a win rate in \<open>[0, 1]\<close>, a positive average win, a negative average loss, a
  maximum leverage \<open>L \<ge> 0\<close> and any fraction, \<open>kelly_criterion\<close> returns a value in the
  closed interval \<open>[0, L]\<close>.
\<close>

theorem kelly_criterion_range:
  assumes "0 \<le> win_rate" and "win_rate \<le> 1"
    and "0 < avg_win" and "avg_loss < 0" and "0 \<le> L"
  shows "kelly_criterion win_rate avg_win avg_loss L fraction \<in> {0 .. L}"
  using kelly_criterion_clamped [OF assms(5)] by simp

theorem kelly_criterion_range_witness:
  "(0::real) \<le> 0.6 \<and> (0.6::real) \<le> 1 \<and> (0::real) < 0.02 \<and> (-0.01::real) < 0 \<and> (0::real) \<le> 1 \<and>
   kelly_criterion 0.6 0.02 (-0.01) 1 0.25 \<in> {0 .. 1} \<and>
   kelly_criterion 0.6 0.02 (-0.01) 1 0.25 = 0.1"
proof -
  have "kelly_criterion 0.6 0.02 (-0.01) 1 0.25 \<in> {0 .. 1}"
    by (rule kelly_criterion_range) simp_all
  moreover have "kelly_criterion 0.6 0.02 (-0.01) 1 0.25 = 0.1"
    by (simp add: kelly_criterion_def Let_def)
  ultimately show ?thesis by simp
qed

text \<open>
  C6 as stated (a win rate of 1 gives exactly \<open>L * f\<close> for every \<open>L\<close> and \<open>f\<close>) fails: the
  product is clamped to \<open>[0, L]\<close> afterwards, so a fraction above 1 yields \<open>L\<close>.
\<close>

theorem kelly_certain_win_counterexample:
  "kelly_criterion 1 0.02 (-0.01) 1 2 = 1 \<and> kelly_criterion 1 0.02 (-0.01) 1 2 \<noteq> 1 * 2"
  by (simp add: kelly_criterion_def Let_def)

text \<open>
  C6, amended. For a positive average win and a negative average loss,
  \<open>kelly_criterion 1 avg_win avg_loss L f\<close> is \<open>L * f\<close> clamped to \<open>[0, L]\<close>, that is
  \<open>max 0 (min (L * f) L)\<close>; it equals \<open>L * f\<close> whenever \<open>0 \<le> L * f \<le> L\<close>, in particular
  for \<open>L \<ge> 0\<close> and \<open>0 \<le> f \<le> 1\<close>.
\<close>

theorem kelly_certain_win:
  assumes "0 < avg_win" and "avg_loss < 0"
  shows "kelly_criterion 1 avg_win avg_loss L f = max 0 (min (L * f) L) \<and>
         (0 \<le> L * f \<and> L * f \<le> L \<longrightarrow> kelly_criterion 1 avg_win avg_loss L f = L * f) \<and>
         (0 \<le> L \<and> 0 \<le> f \<and> f \<le> 1 \<longrightarrow> kelly_criterion 1 avg_win avg_loss L f = L * f)"
proof -
  have eq: "kelly_criterion 1 avg_win avg_loss L f = max 0 (min (L * f) L)"
    using assms by (simp add: kelly_criterion_def Let_def)
  have "L * f \<le> L" "0 \<le> L * f" if "0 \<le> L" "0 \<le> f" "f \<le> 1"
  proof -
    have "L * f \<le> L * 1" using that by (intro mult_left_mono) simp_all
    then show "L * f \<le> L" by simp
    show "0 \<le> L * f" using that by simp
  qed
  then show ?thesis by (simp add: eq)
qed

theorem kelly_certain_win_witness:
  "(0::real) < 0.02 \<and> (-0.015::real) < 0 \<and> (0::real) \<le> 0.3 \<and> (0::real) \<le> 0.25 \<and> (0.25::real) \<le> 1 \<and>
   kelly_criterion 1 0.02 (-0.015) 0.3 0.25 = 0.3 * 0.25"
proof -
  have "(0::real) < 0.02" and "(-0.015::real) < 0" by simp_all
  from kelly_certain_win [OF this, of "0.3" "0.25"] show ?thesis by simp
qed

section \<open>The bounded trade-outcome history\<close>

lemma last_100_short: "length xs \<le> 100 \<Longrightarrow> last_100 xs = xs"
  by (simp add: last_100_def)

lemma length_last_100: "length (last_100 xs) \<le> 100"
  by (simp add: last_100_def)

lemma truncate_is_last_100: "(if length xs > 100 then last_100 xs else xs) = last_100 xs"
  by (simp add: last_100_def)

lemma last_100_idem: "last_100 (last_100 xs) = last_100 xs"
  by (simp add: last_100_short length_last_100)

lemma last_100_snoc: "last_100 (last_100 xs @ [x]) = last_100 (xs @ [x])"
proof -
  have "length xs - (length xs - 100 + 99) + (length xs - 100) = length xs - 99"
    by arith
  then show ?thesis by (simp add: last_100_def)
qed

lemma set_last_100: "set (last_100 xs) \<subseteq> set xs"
  by (simp add: last_100_def set_drop_subset)

lemma track_trade_closed:
  "isclosed t \<Longrightarrow> track_trade t (w, l) =
     (if pnlcomm t > 0 then (last_100 (w @ [trade_return t]), last_100 l)
      else (last_100 w, last_100 (l @ [trade_return t])))"
  by (simp add: track_trade_def truncate_is_last_100 del: length_append)

lemma track_trade_open: "\<not> isclosed t \<Longrightarrow> track_trade t h = h"
  by (simp add: track_trade_def)

lemma track_trades_history:
  "foldl (\<lambda>h t. track_trade t h) (last_100 w, last_100 l) ts =
     (last_100 (w @ map trade_return (filter is_win ts)),
      last_100 (l @ map trade_return (filter is_loss ts)))"
proof (induction ts rule: rev_induct)
  case Nil
  show ?case by simp
next
  case (snoc t ts)
  show ?case
  proof (cases "isclosed t")
    case False
    with snoc show ?thesis by (simp add: track_trade_open is_win_def is_loss_def)
  next
    case True
    with snoc show ?thesis
      by (simp add: track_trade_closed is_win_def is_loss_def last_100_idem last_100_snoc)
  qed
qed


lemma RSI_trades:
  "(rsi_wins (foldl RSI_notify_trade s ts), rsi_losses (foldl RSI_notify_trade s ts)) =
     foldl (\<lambda>h t. track_trade t h) (rsi_wins s, rsi_losses s) ts"
  by (induction ts arbitrary: s) (simp_all add: RSI_notify_trade_def split: prod.splits)

lemma Bol_trades:
  "(bol_wins (foldl Bol_notify_trade s ts), bol_losses (foldl Bol_notify_trade s ts)) =
     foldl (\<lambda>h t. track_trade t h) (bol_wins s, bol_losses s) ts"
  by (induction ts arbitrary: s) (simp_all add: Bol_notify_trade_def split: prod.splits)

lemma APS_trades:
  "(aps_wins (foldl APS_notify_trade s ts), aps_losses (foldl APS_notify_trade s ts)) =
     foldl (\<lambda>h t. track_trade t h) (aps_wins s, aps_losses s) ts"
  by (induction ts arbitrary: s) (simp_all add: APS_notify_trade_def split: prod.splits)

lemma track_trades_from_empty:
  "foldl (\<lambda>h t. track_trade t h) ([], []) ts =
     (last_100 (map trade_return (filter is_win ts)),
      last_100 (map trade_return (filter is_loss ts)))"
  using track_trades_history [of "[]" "[]" ts] by (simp add: last_100_def)

lemma RSI_history:
  "rsi_wins (foldl RSI_notify_trade RSI_init ts) = last_100 (map trade_return (filter is_win ts))"
  "rsi_losses (foldl RSI_notify_trade RSI_init ts) = last_100 (map trade_return (filter is_loss ts))"
  using RSI_trades [of RSI_init ts] by (simp_all add: track_trades_from_empty RSI_init_def)

lemma Bol_history:
  "bol_wins (foldl Bol_notify_trade Bol_init ts) = last_100 (map trade_return (filter is_win ts))"
  "bol_losses (foldl Bol_notify_trade Bol_init ts) = last_100 (map trade_return (filter is_loss ts))"
  using Bol_trades [of Bol_init ts] by (simp_all add: track_trades_from_empty Bol_init_def)

lemma APS_history:
  "aps_wins (foldl APS_notify_trade APS_init ts) = last_100 (map trade_return (filter is_win ts))"
  "aps_losses (foldl APS_notify_trade APS_init ts) = last_100 (map trade_return (filter is_loss ts))"
  using APS_trades [of APS_init ts] by (simp_all add: track_trades_from_empty APS_init_def)

lemma all_wins_last_100:
  assumes "length ts = 105" and "\<forall>t\<in>set ts. isclosed t \<and> pnlcomm t > 0"
  shows "last_100 (map trade_return (filter is_win ts)) = drop 5 (map trade_return ts)"
proof -
  have "filter is_win ts = ts" using assms(2) by (simp add: is_win_def)
  then show ?thesis using assms(1) by (simp add: last_100_def)
qed

text \<open>Only \<^verbatim>\<open>notify_trade\<close> writes the two lists.\<close>

lemma notify_order_keeps_history:
  "rsi_wins (RSI_notify_order rs ord) = rsi_wins rs \<and>
   rsi_losses (RSI_notify_order rs ord) = rsi_losses rs \<and>
   bol_wins (Bol_notify_order bs ord) = bol_wins bs \<and>
   bol_losses (Bol_notify_order bs ord) = bol_losses bs"
  by (simp add: RSI_notify_order_def Bol_notify_order_def)

lemma RSI_next_keeps_history:
  "RSI_next P s b = Inr (s', d) \<Longrightarrow> rsi_wins s' = rsi_wins s \<and> rsi_losses s' = rsi_losses s"
  by (auto simp add: RSI_next_def Let_def split: if_splits sum.splits)

lemma Bol_next_keeps_history:
  "Bol_next P s b = Inr (s', d) \<Longrightarrow> bol_wins s' = bol_wins s \<and> bol_losses s' = bol_losses s"
  by (auto simp add: Bol_next_def Let_def split: if_splits sum.splits option.splits)

text \<open>
  C7. After any sequence of trade notifications the wins list and the losses list of
  \<^verbatim>\<open>RSI_Strat\<close>, \<^verbatim>\<open>Bol_Strat\<close> and \<^verbatim>\<open>AdaptivePositionSizer\<close> hold at most 100
  elements each; after 105 closed winning trades the wins list is the list of the last 100
  returns in arrival order, the 5 oldest having been dropped.
\<close>

theorem history_bounded_fifo:
  "length (rsi_wins (foldl RSI_notify_trade RSI_init ts)) \<le> 100 \<and>
   length (rsi_losses (foldl RSI_notify_trade RSI_init ts)) \<le> 100 \<and>
   length (bol_wins (foldl Bol_notify_trade Bol_init ts)) \<le> 100 \<and>
   length (bol_losses (foldl Bol_notify_trade Bol_init ts)) \<le> 100 \<and>
   length (aps_wins (foldl APS_notify_trade APS_init ts)) \<le> 100 \<and>
   length (aps_losses (foldl APS_notify_trade APS_init ts)) \<le> 100 \<and>
   (length ts = 105 \<and> (\<forall>t\<in>set ts. isclosed t \<and> pnlcomm t > 0) \<longrightarrow>
      rsi_wins (foldl RSI_notify_trade RSI_init ts) = drop 5 (map trade_return ts) \<and>
      bol_wins (foldl Bol_notify_trade Bol_init ts) = drop 5 (map trade_return ts) \<and>
      aps_wins (foldl APS_notify_trade APS_init ts) = drop 5 (map trade_return ts))"
  by (simp add: RSI_history Bol_history APS_history length_last_100 all_wins_last_100)

theorem history_bounded_fifo_witness:
  "length wins_105 = 105 \<and> list_all (\<lambda>t. isclosed t \<and> pnlcomm t > 0) wins_105 \<and>
   rsi_wins (foldl RSI_notify_trade RSI_init wins_105) = map (\<lambda>n. real n + 1) [5..<105] \<and>
   aps_wins (foldl APS_notify_trade APS_init wins_105) = map (\<lambda>n. real n + 1) [5..<105] \<and>
   length (rsi_wins (foldl RSI_notify_trade RSI_init wins_105)) = 100"
proof -
  have len: "length wins_105 = 105" by (simp add: wins_105_def)
  have all: "\<forall>t\<in>set wins_105. isclosed t \<and> pnlcomm t > 0"
    by (auto simp add: wins_105_def)
  have ret: "drop 5 (map trade_return wins_105) = map (\<lambda>n. real n + 1) [5..<105]"
    by (simp add: wins_105_def drop_map trade_return_def)
  from history_bounded_fifo [of wins_105] len all ret show ?thesis
    by (simp add: list_all_iff)
qed


section \<open>Signs in the trade-outcome history\<close>

lemma trade_return_win: "pnlcomm t > 0 \<Longrightarrow> 0 \<le> trade_return t"
  by (simp add: trade_return_def)

lemma trade_return_loss: "\<not> pnlcomm t > 0 \<Longrightarrow> trade_return t \<le> 0"
  by (simp add: trade_return_def divide_le_0_iff)

lemma wins_nonneg: "\<forall>x\<in>set (last_100 (map trade_return (filter is_win ts))). 0 \<le> x"
  using set_last_100 [of "map trade_return (filter is_win ts)"]
  by (auto simp add: is_win_def trade_return_win)

lemma losses_nonpos: "\<forall>x\<in>set (last_100 (map trade_return (filter is_loss ts))). x \<le> 0"
  using set_last_100 [of "map trade_return (filter is_loss ts)"]
  by (auto simp add: is_loss_def trade_return_loss)

lemma track_trade_signs:
  assumes "\<forall>x\<in>set w. 0 \<le> x" and "\<forall>x\<in>set l. x \<le> 0"
  shows "(\<forall>x\<in>set (fst (track_trade t (w, l))). 0 \<le> x) \<and>
         (\<forall>x\<in>set (snd (track_trade t (w, l))). x \<le> 0)"
proof (cases "isclosed t")
  case False
  with assms show ?thesis by (simp add: track_trade_open)
next
  case True
  have "set (last_100 (w @ [trade_return t])) \<subseteq> set (w @ [trade_return t])"
    and "set (last_100 (l @ [trade_return t])) \<subseteq> set (l @ [trade_return t])"
    and "set (last_100 w) \<subseteq> set w" and "set (last_100 l) \<subseteq> set l"
    by (rule set_last_100)+
  with assms True show ?thesis
    using trade_return_win [of t] trade_return_loss [of t]
    by (auto simp add: track_trade_closed)
qed

lemma RSI_notify_trade_lists:
  "(rsi_wins (RSI_notify_trade s t), rsi_losses (RSI_notify_trade s t)) =
     track_trade t (rsi_wins s, rsi_losses s)"
  by (simp add: RSI_notify_trade_def split: prod.splits)

lemma Bol_notify_trade_lists:
  "(bol_wins (Bol_notify_trade s t), bol_losses (Bol_notify_trade s t)) =
     track_trade t (bol_wins s, bol_losses s)"
  by (simp add: Bol_notify_trade_def split: prod.splits)

lemma APS_notify_trade_lists:
  "(aps_wins (APS_notify_trade s t), aps_losses (APS_notify_trade s t)) =
     track_trade t (aps_wins s, aps_losses s)"
  by (simp add: APS_notify_trade_def split: prod.splits)

lemma zero_value_win_tracked:
  "isclosed t \<Longrightarrow> pnlcomm t > 0 \<Longrightarrow> trade_value t = 0 \<Longrightarrow>
   track_trade t (w, l) = (last_100 (w @ [0]), last_100 l)"
  by (simp add: track_trade_closed trade_return_def)

lemma break_even_tracked:
  "isclosed t \<Longrightarrow> pnlcomm t = 0 \<Longrightarrow>
   track_trade t (w, l) = (last_100 w, last_100 (l @ [0]))"
  by (simp add: track_trade_closed trade_return_def)

text \<open>
  C10. After any sequence of trade notifications every element of the wins list is
  \<open>\<ge> 0\<close> and every element of the losses list is \<open>\<le> 0\<close>, in \<^verbatim>\<open>RSI_Strat\<close>,
  \<^verbatim>\<open>Bol_Strat\<close> and \<^verbatim>\<open>AdaptivePositionSizer\<close>. A closed trade with a positive
  \<^verbatim>\<open>pnlcomm\<close> and an open value of zero appends 0 to the wins; a closed trade whose
  \<^verbatim>\<open>pnlcomm\<close> is exactly 0 is appended to the losses (with the return 0), not to the wins.
\<close>

theorem history_sign_invariant:
  "(\<forall>x\<in>set (rsi_wins (foldl RSI_notify_trade RSI_init ts)). 0 \<le> x) \<and>
   (\<forall>x\<in>set (rsi_losses (foldl RSI_notify_trade RSI_init ts)). x \<le> 0) \<and>
   (\<forall>x\<in>set (bol_wins (foldl Bol_notify_trade Bol_init ts)). 0 \<le> x) \<and>
   (\<forall>x\<in>set (bol_losses (foldl Bol_notify_trade Bol_init ts)). x \<le> 0) \<and>
   (\<forall>x\<in>set (aps_wins (foldl APS_notify_trade APS_init ts)). 0 \<le> x) \<and>
   (\<forall>x\<in>set (aps_losses (foldl APS_notify_trade APS_init ts)). x \<le> 0) \<and>
   (isclosed t \<and> pnlcomm t > 0 \<and> trade_value t = 0 \<longrightarrow>
      rsi_wins (RSI_notify_trade rs t) = last_100 (rsi_wins rs @ [0]) \<and>
      rsi_losses (RSI_notify_trade rs t) = last_100 (rsi_losses rs) \<and>
      bol_wins (Bol_notify_trade bs t) = last_100 (bol_wins bs @ [0]) \<and>
      bol_losses (Bol_notify_trade bs t) = last_100 (bol_losses bs) \<and>
      aps_wins (APS_notify_trade as t) = last_100 (aps_wins as @ [0]) \<and>
      aps_losses (APS_notify_trade as t) = last_100 (aps_losses as)) \<and>
   (isclosed t \<and> pnlcomm t = 0 \<longrightarrow>
      rsi_wins (RSI_notify_trade rs t) = last_100 (rsi_wins rs) \<and>
      rsi_losses (RSI_notify_trade rs t) = last_100 (rsi_losses rs @ [0]) \<and>
      bol_wins (Bol_notify_trade bs t) = last_100 (bol_wins bs) \<and>
      bol_losses (Bol_notify_trade bs t) = last_100 (bol_losses bs @ [0]) \<and>
      aps_wins (APS_notify_trade as t) = last_100 (aps_wins as) \<and>
      aps_losses (APS_notify_trade as t) = last_100 (aps_losses as @ [0]))"
proof -
  have runs:
    "(\<forall>x\<in>set (rsi_wins (foldl RSI_notify_trade RSI_init ts)). 0 \<le> x) \<and>
     (\<forall>x\<in>set (rsi_losses (foldl RSI_notify_trade RSI_init ts)). x \<le> 0) \<and>
     (\<forall>x\<in>set (bol_wins (foldl Bol_notify_trade Bol_init ts)). 0 \<le> x) \<and>
     (\<forall>x\<in>set (bol_losses (foldl Bol_notify_trade Bol_init ts)). x \<le> 0) \<and>
     (\<forall>x\<in>set (aps_wins (foldl APS_notify_trade APS_init ts)). 0 \<le> x) \<and>
     (\<forall>x\<in>set (aps_losses (foldl APS_notify_trade APS_init ts)). x \<le> 0)"
    by (simp add: RSI_history Bol_history APS_history wins_nonneg losses_nonpos)
  have step1: "rsi_wins (RSI_notify_trade rs t) = last_100 (rsi_wins rs @ [0]) \<and>
      rsi_losses (RSI_notify_trade rs t) = last_100 (rsi_losses rs) \<and>
      bol_wins (Bol_notify_trade bs t) = last_100 (bol_wins bs @ [0]) \<and>
      bol_losses (Bol_notify_trade bs t) = last_100 (bol_losses bs) \<and>
      aps_wins (APS_notify_trade as t) = last_100 (aps_wins as @ [0]) \<and>
      aps_losses (APS_notify_trade as t) = last_100 (aps_losses as)"
    if "isclosed t" "pnlcomm t > 0" "trade_value t = 0"
    using RSI_notify_trade_lists [of rs t] Bol_notify_trade_lists [of bs t]
      APS_notify_trade_lists [of as t]
    by (simp add: zero_value_win_tracked [OF that])
  have step2: "rsi_wins (RSI_notify_trade rs t) = last_100 (rsi_wins rs) \<and>
      rsi_losses (RSI_notify_trade rs t) = last_100 (rsi_losses rs @ [0]) \<and>
      bol_wins (Bol_notify_trade bs t) = last_100 (bol_wins bs) \<and>
      bol_losses (Bol_notify_trade bs t) = last_100 (bol_losses bs @ [0]) \<and>
      aps_wins (APS_notify_trade as t) = last_100 (aps_wins as) \<and>
      aps_losses (APS_notify_trade as t) = last_100 (aps_losses as @ [0])"
    if "isclosed t" "pnlcomm t = 0"
    using RSI_notify_trade_lists [of rs t] Bol_notify_trade_lists [of bs t]
      APS_notify_trade_lists [of as t]
    by (simp add: break_even_tracked [OF that])
  from runs step1 step2 show ?thesis by blast
qed

theorem history_sign_invariant_witness:
  "list_all (\<lambda>x. 0 \<le> x) (rsi_wins (foldl RSI_notify_trade RSI_init four_trades)) \<and>
   list_all (\<lambda>x. x \<le> 0) (rsi_losses (foldl RSI_notify_trade RSI_init four_trades)) \<and>
   rsi_wins (foldl RSI_notify_trade RSI_init four_trades) = [0, 0.2] \<and>
   rsi_losses (foldl RSI_notify_trade RSI_init four_trades) = [0, - 0.3] \<and>
   isclosed zero_value_win \<and> pnlcomm zero_value_win > 0 \<and> trade_value zero_value_win = 0 \<and>
   aps_wins (APS_notify_trade APS_init zero_value_win) = [0] \<and>
   isclosed break_even \<and> pnlcomm break_even = 0 \<and>
   bol_losses (Bol_notify_trade Bol_init break_even) = [0] \<and>
   bol_wins (Bol_notify_trade Bol_init break_even) = []"
proof -
  have run: "rsi_wins (foldl RSI_notify_trade RSI_init four_trades) = [0, 0.2]"
    "rsi_losses (foldl RSI_notify_trade RSI_init four_trades) = [0, - 0.3]"
    unfolding RSI_history
    by (simp_all add: four_trades_def zero_value_win_def break_even_def is_win_def
        is_loss_def trade_return_def last_100_def)
  have zw: "isclosed zero_value_win \<and> pnlcomm zero_value_win > 0 \<and> trade_value zero_value_win = 0"
    by (simp add: zero_value_win_def)
  have be: "isclosed break_even \<and> pnlcomm break_even = 0"
    by (simp add: break_even_def)
  from history_sign_invariant [of four_trades zero_value_win RSI_init Bol_init APS_init] zw
  have a: "list_all (\<lambda>x. 0 \<le> x) (rsi_wins (foldl RSI_notify_trade RSI_init four_trades))"
    "list_all (\<lambda>x. x \<le> 0) (rsi_losses (foldl RSI_notify_trade RSI_init four_trades))"
    "aps_wins (APS_notify_trade APS_init zero_value_win) = [0]"
    by (simp_all add: list_all_iff APS_init_def last_100_def)
  from history_sign_invariant [of "[]" break_even RSI_init Bol_init APS_init] be
  have b: "bol_losses (Bol_notify_trade Bol_init break_even) = [0]"
    "bol_wins (Bol_notify_trade Bol_init break_even) = []"
    by (simp_all add: Bol_init_def last_100_def)
  from run zw be a b show ?thesis by simp
qed


section \<open>The order life cycle\<close>

lemma submit_Some: "sz \<noteq> 0 \<Longrightarrow> submit sd sz = Some \<lparr>side = sd, order_size = \<bar>sz\<bar>\<rparr>"
  by (simp add: submit_def)

lemma RSI_next_flag:
  assumes "RSI_next P s b = Inr (s', d)"
  shows "(rsi_order s \<noteq> None \<longrightarrow> s' = s \<and> d = None) \<and> (rsi_order s = None \<longrightarrow> rsi_order s' = d)"
  using assms by (auto simp add: RSI_next_def Let_def split: if_splits sum.splits)

lemma Bol_next_flag:
  assumes "Bol_next P s b = Inr (s', d, r)"
  shows "(bol_order s \<noteq> None \<longrightarrow> s' = s \<and> d = None) \<and> (bol_order s = None \<longrightarrow> bol_order s' = d)"
  using assms
  by (auto simp add: Bol_next_def Let_def split: if_splits sum.splits option.splits)

lemma Rand_next_flag:
  assumes "Rand_next randomf P (g, s) b = Inr (g', s', d)"
  shows "(rand_order s \<noteq> None \<longrightarrow> s' = s \<and> d = None) \<and>
         (rand_order s = None \<longrightarrow> rand_order s' = d)"
  using assms
  by (auto simp add: Rand_next_def Let_def split: if_splits sum.splits prod.splits)

lemma notify_order_flag:
  "rsi_order (RSI_notify_order rs ord) =
     (if status ord \<in> {Submitted, Accepted} then rsi_order rs else None)"
  "bol_order (Bol_notify_order bs ord) =
     (if status ord \<in> {Submitted, Accepted} then bol_order bs else None)"
  "rand_order (Rand_notify_order xs ord) =
     (if status ord \<in> {Submitted, Accepted} then rand_order xs else None)"
  by (simp_all add: RSI_notify_order_def Bol_notify_order_def Rand_notify_order_def)

lemma notify_trade_flag:
  "rsi_order (RSI_notify_trade rs t) = rsi_order rs"
  "bol_order (Bol_notify_trade bs t) = bol_order bs"
  "rand_order (Rand_notify_trade xs t) = rand_order xs"
  by (simp_all add: RSI_notify_trade_def Bol_notify_trade_def Rand_notify_trade_def
      split: prod.splits)

lemma RSI_trace_single_outstanding:
  "single_outstanding (rsi_order s \<noteq> None) (RSI_trace P s evs)"
proof (induction evs arbitrary: s)
  case Nil
  show ?case by simp
next
  case (Cons ev evs)
  show ?case
  proof (cases "RSI_handle P s ev")
    case (Inl e)
    then show ?thesis by simp
  next
    case (Inr r)
    obtain s' d where r: "r = (s', d)" by (cases r)
    show ?thesis
    proof (cases ev)
      case (Bar b)
      with Inr r have nx: "RSI_next P s b = Inr (s', d)" by (simp add: RSI_handle_def)
      show ?thesis
      proof (cases "rsi_order s = None")
        case True
        with RSI_next_flag [OF nx] have "rsi_order s' = d" by simp
        with Cons.IH [of s'] True Inr r Bar show ?thesis by auto
      next
        case False
        with RSI_next_flag [OF nx] have "s' = s" "d = None" by simp_all
        with Cons.IH [of s] False Inr r Bar show ?thesis by simp
      qed
    next
      case (OrderNote ord)
      with Inr r have sd: "s' = RSI_notify_order s ord" "d = None"
        by (simp_all add: RSI_handle_def)
      have eq: "(rsi_order s' \<noteq> None) = (rsi_order s \<noteq> None \<and> status ord \<in> {Submitted, Accepted})"
        by (simp add: sd notify_order_flag)
      from Cons.IH [of s'] have "single_outstanding
          (rsi_order s \<noteq> None \<and> status ord \<in> {Submitted, Accepted}) (RSI_trace P s' evs)"
        by (simp only: eq)
      with Inr r OrderNote sd show ?thesis by simp
    next
      case (TradeNote t)
      with Inr r have "s' = RSI_notify_trade s t" "d = None" by (simp_all add: RSI_handle_def)
      with Cons.IH [of s'] Inr r TradeNote show ?thesis by (simp add: notify_trade_flag)
    qed
  qed
qed

lemma Bol_trace_single_outstanding:
  "single_outstanding (bol_order s \<noteq> None) (Bol_trace P s evs)"
proof (induction evs arbitrary: s)
  case Nil
  show ?case by simp
next
  case (Cons ev evs)
  show ?case
  proof (cases "Bol_handle P s ev")
    case (Inl e)
    then show ?thesis by simp
  next
    case (Inr r)
    obtain s' d x where r: "r = (s', d, x)" by (cases r)
    show ?thesis
    proof (cases ev)
      case (Bar b)
      with Inr r have nx: "Bol_next P s b = Inr (s', d, x)" by (simp add: Bol_handle_def)
      show ?thesis
      proof (cases "bol_order s = None")
        case True
        with Bol_next_flag [OF nx] have "bol_order s' = d" by simp
        with Cons.IH [of s'] True Inr r Bar show ?thesis by auto
      next
        case False
        with Bol_next_flag [OF nx] have "s' = s" "d = None" by simp_all
        with Cons.IH [of s] False Inr r Bar show ?thesis by simp
      qed
    next
      case (OrderNote ord)
      with Inr r have sd: "s' = Bol_notify_order s ord" "d = None"
        by (simp_all add: Bol_handle_def)
      have eq: "(bol_order s' \<noteq> None) = (bol_order s \<noteq> None \<and> status ord \<in> {Submitted, Accepted})"
        by (simp add: sd notify_order_flag)
      from Cons.IH [of s'] have "single_outstanding
          (bol_order s \<noteq> None \<and> status ord \<in> {Submitted, Accepted}) (Bol_trace P s' evs)"
        by (simp only: eq)
      with Inr r OrderNote sd show ?thesis by simp
    next
      case (TradeNote t)
      with Inr r have "s' = Bol_notify_trade s t" "d = None" by (simp_all add: Bol_handle_def)
      with Cons.IH [of s'] Inr r TradeNote show ?thesis by (simp add: notify_trade_flag)
    qed
  qed
qed

lemma Rand_trace_single_outstanding:
  "single_outstanding (rand_order s \<noteq> None) (Rand_trace randomf P (g, s) evs)"
proof (induction evs arbitrary: g s)
  case Nil
  show ?case by simp
next
  case (Cons ev evs)
  show ?case
  proof (cases "Rand_handle randomf P (g, s) ev")
    case (Inl e)
    then show ?thesis by simp
  next
    case (Inr r)
    obtain g' s' d where r: "r = (g', s', d)" by (cases r)
    show ?thesis
    proof (cases ev)
      case (Bar b)
      with Inr r have nx: "Rand_next randomf P (g, s) b = Inr (g', s', d)"
        by (simp add: Rand_handle_def)
      show ?thesis
      proof (cases "rand_order s = None")
        case True
        with Rand_next_flag [OF nx] have "rand_order s' = d" by simp
        with Cons.IH [of s' g'] True Inr r Bar show ?thesis by auto
      next
        case False
        with Rand_next_flag [OF nx] have "s' = s" "d = None" by simp_all
        with Cons.IH [of s g'] False Inr r Bar show ?thesis by simp
      qed
    next
      case (OrderNote ord)
      with Inr r have sd: "s' = Rand_notify_order s ord" "d = None"
        by (simp_all add: Rand_handle_def)
      have eq: "(rand_order s' \<noteq> None) = (rand_order s \<noteq> None \<and> status ord \<in> {Submitted, Accepted})"
        by (simp add: sd notify_order_flag)
      from Cons.IH [of s' g'] have "single_outstanding
          (rand_order s \<noteq> None \<and> status ord \<in> {Submitted, Accepted}) (Rand_trace randomf P (g', s') evs)"
        by (simp only: eq)
      with Inr r OrderNote sd show ?thesis by simp
    next
      case (TradeNote t)
      with Inr r have "s' = Rand_notify_trade s t" "d = None"
        by (simp_all add: Rand_handle_def)
      with Cons.IH [of s' g'] Inr r TradeNote show ?thesis by (simp add: notify_trade_flag)
    qed
  qed
qed

text \<open>
  C4 as stated fails: the handlers clear \<^verbatim>\<open>self.order\<close> on every notification whose
  status is neither Submitted nor Accepted, also on Partial, which does not resolve the
  order. An RSI strategy submits a buy of 2 units; the broker reports it half filled; on a
  later bar the strategy, holding 1 unit, submits a sell while the rest of the buy is still
  open.
\<close>

theorem pending_order_partial_counterexample:
  "RSI_next rsi_defaults RSI_init entry_bar =
     Inr (RSI_init\<lparr>rsi_order := Some buy_2\<rparr>, Some buy_2) \<and>
   status partial_note = Partial \<and>
   RSI_notify_order (RSI_init\<lparr>rsi_order := Some buy_2\<rparr>) partial_note = RSI_init \<and>
   RSI_next rsi_defaults RSI_init half_filled_bar =
     Inr (RSI_init\<lparr>rsi_order := Some sell_1\<rparr>, Some sell_1) \<and>
   RSI_trace rsi_defaults RSI_init [Bar entry_bar, OrderNote partial_note, Bar half_filled_bar] =
     [(Bar entry_bar, Some buy_2), (OrderNote partial_note, None),
      (Bar half_filled_bar, Some sell_1)]"
  by (simp add: RSI_handle_def RSI_next_def RSI_notify_order_def RSI_init_def rsi_defaults_def
      entry_bar_def half_filled_bar_def partial_note_def buy_2_def sell_1_def submit_def
      calculate_position_size_def py_div_def Let_def)

text \<open>
  C4, amended. In \<^verbatim>\<open>RSI_Strat\<close>, \<^verbatim>\<open>Bol_Strat\<close> and \<^verbatim>\<open>Rand_Strat\<close>, while the order flag
  \<^verbatim>\<open>self.order\<close> is set the evaluation of a bar, whatever the bar, submits no order and
  leaves the state as it is (the random strategy does not even draw). The flag stays set
  through Submitted and Accepted notifications and through trade notifications; every
  other order notification clears it, the terminal ones and Partial alike. So in every run,
  from every state, no order is submitted between the bar that submits one and the next
  order notification with a status other than Submitted and Accepted.
\<close>

theorem pending_order_blocks_next:
  "(rsi_order rs \<noteq> None \<longrightarrow> RSI_next RP rs b = Inr (rs, None)) \<and>
   (bol_order bs \<noteq> None \<longrightarrow> Bol_next BP bs b = Inr (bs, None, None)) \<and>
   (rand_order xs \<noteq> None \<longrightarrow> Rand_next randomf XP (g, xs) b = Inr (g, xs, None)) \<and>
   (status ord \<in> {Submitted, Accepted} \<longrightarrow>
      RSI_notify_order rs ord = rs \<and> Bol_notify_order bs ord = bs \<and>
      Rand_notify_order xs ord = xs) \<and>
   (status ord \<notin> {Submitted, Accepted} \<longrightarrow>
      rsi_order (RSI_notify_order rs ord) = None \<and> bol_order (Bol_notify_order bs ord) = None \<and>
      rand_order (Rand_notify_order xs ord) = None) \<and>
   rsi_order (RSI_notify_trade rs t) = rsi_order rs \<and>
   bol_order (Bol_notify_trade bs t) = bol_order bs \<and>
   rand_order (Rand_notify_trade xs t) = rand_order xs \<and>
   single_outstanding (rsi_order rs \<noteq> None) (RSI_trace RP rs evs) \<and>
   single_outstanding (bol_order bs \<noteq> None) (Bol_trace BP bs evs) \<and>
   single_outstanding (rand_order xs \<noteq> None) (Rand_trace randomf XP (g, xs) evs)"
proof -
  have steps:
    "(rsi_order rs \<noteq> None \<longrightarrow> RSI_next RP rs b = Inr (rs, None)) \<and>
     (bol_order bs \<noteq> None \<longrightarrow> Bol_next BP bs b = Inr (bs, None, None)) \<and>
     (rand_order xs \<noteq> None \<longrightarrow> Rand_next randomf XP (g, xs) b = Inr (g, xs, None))"
    by (simp add: RSI_next_def Bol_next_def Rand_next_def)
  have keep:
    "status ord \<in> {Submitted, Accepted} \<longrightarrow>
      RSI_notify_order rs ord = rs \<and> Bol_notify_order bs ord = bs \<and>
      Rand_notify_order xs ord = xs"
    by (simp add: RSI_notify_order_def Bol_notify_order_def Rand_notify_order_def)
  have clear:
    "status ord \<notin> {Submitted, Accepted} \<longrightarrow>
      rsi_order (RSI_notify_order rs ord) = None \<and> bol_order (Bol_notify_order bs ord) = None \<and>
      rand_order (Rand_notify_order xs ord) = None"
    by (simp add: notify_order_flag)
  from steps keep clear notify_trade_flag(1) [of rs t] notify_trade_flag(2) [of bs t]
    notify_trade_flag(3) [of xs t]
    RSI_trace_single_outstanding [of rs RP evs] Bol_trace_single_outstanding [of bs BP evs]
    Rand_trace_single_outstanding [of xs randomf XP g evs]
  show ?thesis by blast
qed

theorem pending_order_blocks_next_witness:
  "RSI_next rsi_defaults RSI_init entry_bar =
     Inr (RSI_init\<lparr>rsi_order := Some buy_2\<rparr>, Some buy_2) \<and>
   status accepted_note \<in> {Submitted, Accepted} \<and>
   RSI_notify_order (RSI_init\<lparr>rsi_order := Some buy_2\<rparr>) accepted_note =
     RSI_init\<lparr>rsi_order := Some buy_2\<rparr> \<and>
   RSI_next rsi_defaults (RSI_init\<lparr>rsi_order := Some buy_2\<rparr>) entry_bar =
     Inr (RSI_init\<lparr>rsi_order := Some buy_2\<rparr>, None) \<and>
   status buy_filled \<notin> {Submitted, Accepted} \<and>
   rsi_order (RSI_notify_order (RSI_init\<lparr>rsi_order := Some buy_2\<rparr>) buy_filled) = None \<and>
   Bol_next bol_defaults Bol_init entry_bar =
     Inr (Bol_init\<lparr>bol_order := Some buy_2\<rparr>, Some buy_2, None) \<and>
   Bol_next bol_defaults (Bol_init\<lparr>bol_order := Some buy_2\<rparr>) entry_bar =
     Inr (Bol_init\<lparr>bol_order := Some buy_2\<rparr>, None, None) \<and>
   Rand_next replay_random rand_example
       ([0.25, 0.75], \<lparr>rand_order = None, bar_count_in_position = 0\<rparr>) entry_bar =
     Inr ([0.75], \<lparr>rand_order = Some buy_2, bar_count_in_position = 0\<rparr>, Some buy_2) \<and>
   Rand_next replay_random rand_example
       ([0.75], \<lparr>rand_order = Some buy_2, bar_count_in_position = 0\<rparr>) entry_bar =
     Inr ([0.75], \<lparr>rand_order = Some buy_2, bar_count_in_position = 0\<rparr>, None) \<and>
   RSI_trace rsi_defaults RSI_init
     [Bar entry_bar, OrderNote accepted_note, Bar entry_bar, OrderNote buy_filled, Bar exit_bar] =
     [(Bar entry_bar, Some buy_2), (OrderNote accepted_note, None), (Bar entry_bar, None),
      (OrderNote buy_filled, None), (Bar exit_bar, Some sell_2)] \<and>
   single_outstanding False
     [(Bar entry_bar, Some buy_2), (OrderNote accepted_note, None), (Bar entry_bar, None),
      (OrderNote buy_filled, None), (Bar exit_bar, Some sell_2)]"
proof -
  have first:
    "RSI_next rsi_defaults RSI_init entry_bar =
       Inr (RSI_init\<lparr>rsi_order := Some buy_2\<rparr>, Some buy_2)"
    "Bol_next bol_defaults Bol_init entry_bar =
       Inr (Bol_init\<lparr>bol_order := Some buy_2\<rparr>, Some buy_2, None)"
    "Rand_next replay_random rand_example
         ([0.25, 0.75], \<lparr>rand_order = None, bar_count_in_position = 0\<rparr>) entry_bar =
       Inr ([0.75], \<lparr>rand_order = Some buy_2, bar_count_in_position = 0\<rparr>, Some buy_2)"
    by (simp_all add: RSI_next_def Bol_next_def Rand_next_def RSI_init_def
        Bol_init_def rsi_defaults_def bol_defaults_def rand_example_def entry_bar_def buy_2_def
        submit_def calculate_position_size_def py_div_def replay_random_def Let_def)
  have pending:
    "rsi_order (RSI_init\<lparr>rsi_order := Some buy_2\<rparr>) \<noteq> None"
    "bol_order (Bol_init\<lparr>bol_order := Some buy_2\<rparr>) \<noteq> None"
    "rand_order \<lparr>rand_order = Some buy_2, bar_count_in_position = 0\<rparr> \<noteq> None"
    "status accepted_note \<in> {Submitted, Accepted}"
    "status buy_filled \<notin> {Submitted, Accepted}"
    by (simp_all add: accepted_note_def buy_filled_def)
  have trace:
    "RSI_trace rsi_defaults RSI_init
       [Bar entry_bar, OrderNote accepted_note, Bar entry_bar, OrderNote buy_filled,
        Bar exit_bar] =
     [(Bar entry_bar, Some buy_2), (OrderNote accepted_note, None), (Bar entry_bar, None),
      (OrderNote buy_filled, None), (Bar exit_bar, Some sell_2)]"
    by (simp add: RSI_handle_def RSI_next_def RSI_notify_order_def RSI_init_def
        rsi_defaults_def entry_bar_def exit_bar_def accepted_note_def buy_filled_def buy_2_def
        sell_2_def submit_def calculate_position_size_def py_div_def Let_def)
  have flat: "(rsi_order RSI_init \<noteq> None) = False" by (simp add: RSI_init_def)
  note at_pending = pending_order_blocks_next
    [of "RSI_init\<lparr>rsi_order := Some buy_2\<rparr>" rsi_defaults entry_bar
      "Bol_init\<lparr>bol_order := Some buy_2\<rparr>" bol_defaults
      "\<lparr>rand_order = Some buy_2, bar_count_in_position = 0\<rparr>" replay_random rand_example
      "[0.75]" accepted_note zero_value_win "[]"]
  note at_fill = pending_order_blocks_next
    [of "RSI_init\<lparr>rsi_order := Some buy_2\<rparr>" rsi_defaults entry_bar
      "Bol_init\<lparr>bol_order := Some buy_2\<rparr>" bol_defaults
      "\<lparr>rand_order = Some buy_2, bar_count_in_position = 0\<rparr>" replay_random rand_example
      "[0.75]" buy_filled zero_value_win "[]"]
  note at_start = pending_order_blocks_next
    [of RSI_init rsi_defaults entry_bar Bol_init bol_defaults
      "\<lparr>rand_order = None, bar_count_in_position = 0\<rparr>" replay_random rand_example "[]"
      accepted_note zero_value_win
      "[Bar entry_bar, OrderNote accepted_note, Bar entry_bar, OrderNote buy_filled,
        Bar exit_bar]"]
  from at_pending [THEN conjunct1] pending(1)
  have rsi_blocked:
    "RSI_next rsi_defaults (RSI_init\<lparr>rsi_order := Some buy_2\<rparr>) entry_bar =
       Inr (RSI_init\<lparr>rsi_order := Some buy_2\<rparr>, None)"
    by (rule mp)
  from at_pending [THEN conjunct2, THEN conjunct1] pending(2)
  have bol_blocked:
    "Bol_next bol_defaults (Bol_init\<lparr>bol_order := Some buy_2\<rparr>) entry_bar =
       Inr (Bol_init\<lparr>bol_order := Some buy_2\<rparr>, None, None)"
    by (rule mp)
  from at_pending [THEN conjunct2, THEN conjunct2, THEN conjunct1] pending(3)
  have rand_blocked:
    "Rand_next replay_random rand_example
         ([0.75], \<lparr>rand_order = Some buy_2, bar_count_in_position = 0\<rparr>) entry_bar =
       Inr ([0.75], \<lparr>rand_order = Some buy_2, bar_count_in_position = 0\<rparr>, None)"
    by (rule mp)
  from at_pending [THEN conjunct2, THEN conjunct2, THEN conjunct2, THEN conjunct1] pending(4)
  have "RSI_notify_order (RSI_init\<lparr>rsi_order := Some buy_2\<rparr>) accepted_note =
          RSI_init\<lparr>rsi_order := Some buy_2\<rparr> \<and>
        Bol_notify_order (Bol_init\<lparr>bol_order := Some buy_2\<rparr>) accepted_note =
          Bol_init\<lparr>bol_order := Some buy_2\<rparr> \<and>
        Rand_notify_order \<lparr>rand_order = Some buy_2, bar_count_in_position = 0\<rparr> accepted_note =
          \<lparr>rand_order = Some buy_2, bar_count_in_position = 0\<rparr>"
    by (rule mp)
  then have kept:
    "RSI_notify_order (RSI_init\<lparr>rsi_order := Some buy_2\<rparr>) accepted_note =
       RSI_init\<lparr>rsi_order := Some buy_2\<rparr>"
    by (rule conjunct1)
  from at_fill [THEN conjunct2, THEN conjunct2, THEN conjunct2, THEN conjunct2, THEN conjunct1]
    pending(5)
  have "rsi_order (RSI_notify_order (RSI_init\<lparr>rsi_order := Some buy_2\<rparr>) buy_filled) = None \<and>
        bol_order (Bol_notify_order (Bol_init\<lparr>bol_order := Some buy_2\<rparr>) buy_filled) = None \<and>
        rand_order
          (Rand_notify_order \<lparr>rand_order = Some buy_2, bar_count_in_position = 0\<rparr> buy_filled) =
          None"
    by (rule mp)
  then have cleared:
    "rsi_order (RSI_notify_order (RSI_init\<lparr>rsi_order := Some buy_2\<rparr>) buy_filled) = None"
    by (rule conjunct1)
  from at_start [THEN conjunct2, THEN conjunct2, THEN conjunct2, THEN conjunct2,
      THEN conjunct2, THEN conjunct2, THEN conjunct2, THEN conjunct2, THEN conjunct1]
  have run: "single_outstanding False
     [(Bar entry_bar, Some buy_2), (OrderNote accepted_note, None), (Bar entry_bar, None),
      (OrderNote buy_filled, None), (Bar exit_bar, Some sell_2)]"
    unfolding trace flat .
  show ?thesis
    by (intro conjI) (fact first pending kept rsi_blocked cleared bol_blocked rand_blocked
        trace run)+
qed

text \<open>
  C8. A Canceled, Margin or Rejected notification clears the pending order and changes
  nothing else of the state of \<^verbatim>\<open>RSI_Strat\<close>, \<^verbatim>\<open>Bol_Strat\<close> and \<^verbatim>\<open>Rand_Strat\<close>
  (entry price, bar counter, wins and losses stay; the position belongs to the broker). The
  handler submits nothing: after it no order is pending, and only the evaluation of a later
  bar can submit again.
\<close>

theorem rejection_only_clears_pending:
  assumes "status ord \<in> {Canceled, Margin, Rejected}"
  shows "RSI_notify_order rs ord = rs\<lparr>rsi_order := None\<rparr> \<and>
         Bol_notify_order bs ord = bs\<lparr>bol_order := None\<rparr> \<and>
         Rand_notify_order xs ord = xs\<lparr>rand_order := None\<rparr>"
  using assms by (auto simp add: RSI_notify_order_def Bol_notify_order_def Rand_notify_order_def)

theorem rejection_only_clears_pending_witness:
  "status rejected_note \<in> {Canceled, Margin, Rejected} \<and>
   RSI_notify_order (RSI_init\<lparr>rsi_order := Some buy_2\<rparr>) rejected_note = RSI_init \<and>
   Bol_notify_order
     \<lparr>bol_order = Some buy_2, entry_price = Some 90, entry_comm = Some 1, bol_wins = [0.1],
      bol_losses = [- 0.2]\<rparr> rejected_note =
     \<lparr>bol_order = None, entry_price = Some 90, entry_comm = Some 1, bol_wins = [0.1],
      bol_losses = [- 0.2]\<rparr> \<and>
   Rand_notify_order \<lparr>rand_order = Some buy_2, bar_count_in_position = 4\<rparr> rejected_note =
     \<lparr>rand_order = None, bar_count_in_position = 4\<rparr>"
proof -
  have st: "status rejected_note \<in> {Canceled, Margin, Rejected}"
    by (simp add: rejected_note_def)
  from rejection_only_clears_pending [OF st,
      of "RSI_init\<lparr>rsi_order := Some buy_2\<rparr>"
        "\<lparr>bol_order = Some buy_2, entry_price = Some 90, entry_comm = Some 1, bol_wins = [0.1],
          bol_losses = [- 0.2]\<rparr>"
        "\<lparr>rand_order = Some buy_2, bar_count_in_position = 4\<rparr>"] st
  show ?thesis by (simp add: RSI_init_def)
qed

section \<open>\<^verbatim>\<open>AdaptivePositionSizer._getsizing\<close>\<close>

lemma num_val_num_op: "num_val (num_op f a b) = f (num_val a) (num_val b)"
  by (simp add: num_op_def)

lemma num_val_num_abs: "num_val (num_abs a) = \<bar>num_val a\<bar>"
  by (cases a) (simp_all add: num_abs_def)

lemma num_val_num_min: "num_val (num_min a b) = min (num_val a) (num_val b)"
  by (simp add: num_min_def)

lemma num_val_num_max: "num_val (num_max a b) = max (num_val a) (num_val b)"
  by (simp add: num_max_def)

lemma num_val_kelly_criterion_obj:
  "num_val (kelly_criterion_obj win_rate avg_win avg_loss max_leverage fraction) =
     kelly_criterion win_rate (num_val avg_win) (num_val avg_loss) max_leverage fraction"
  by (simp add: kelly_criterion_obj_def kelly_criterion_def Let_def num_val_num_op
      num_val_num_abs num_val_num_min num_val_num_max)


lemma APS_position_fraction_kelly:
  assumes "aps_method P = ''kelly''" and "int (length (aps_wins s) + length (aps_losses s)) \<ge> min_trades P"
    and "aps_wins s \<noteq> []" and "aps_losses s \<noteq> []"
  shows "APS_position_fraction P s =
     max (min_position P)
       (min (kelly_criterion
               (real (length (aps_wins s)) / real (length (aps_wins s) + length (aps_losses s)))
               (sum_list (aps_wins s) / real (length (aps_wins s)))
               (sum_list (aps_losses s) / real (length (aps_losses s)))
               (max_position P) (aps_kelly_fraction P))
          (max_position P))"
  using assms
  by (simp add: APS_position_fraction_def APS_position_fraction_obj_def Let_def
      num_val_num_min num_val_num_max num_val_kelly_criterion_obj np_mean_def)




section \<open>Exit conditions of the Bollinger strategy\<close>

lemma Bol_exit_check_stop_loss_first:
  "truthy (stop_loss_pct P) \<Longrightarrow> truthy (entry_price s) \<Longrightarrow>
   Bol_exit_check P s b \<noteq> Some TakeProfit"
  by (simp add: Bol_exit_check_def Let_def)

lemma Bol_take_profit_without_stop_loss:
  assumes "bol_order s = None" and "position b \<noteq> 0"
    and "truthy (take_profit_pct P)" and "truthy (entry_price s)"
    and "close b > the (entry_price s) * (1 + the (take_profit_pct P) / 100)"
    and "\<not> close b > bb_top b" and "\<not> (exit_on_middle P \<and> close b > bb_mid b)"
    and "\<not> truthy (stop_loss_pct P)"
  shows "Bol_next P s b =
     Inr (s\<lparr>bol_order := Some \<lparr>side = Sell, order_size = \<bar>position b\<bar>\<rparr>\<rparr>,
          Some \<lparr>side = Sell, order_size = \<bar>position b\<bar>\<rparr>, Some TakeProfit)"
  using assms by (simp add: Bol_next_def Bol_exit_check_def submit_def Let_def)

text \<open>
  C1. The claim: on a bar in position with no pending order, with take profit configured,
  the entry price set, the price above the take-profit target and none of the earlier
  conditions firing (price not above the upper band, no middle-band exit, price not below
  the stop price), the strategy sells with the reason "take profit". The code does so only
  when no stop loss is active (\<open>Bol_take_profit_without_stop_loss\<close>). With a stop loss
  configured and an entry price set, the \<^verbatim>\<open>elif\<close> of the stop loss is entered whether or
  not the price is below the stop price, and the take-profit \<^verbatim>\<open>elif\<close> is never reached
  (\<open>Bol_exit_check_stop_loss_first\<close>). The theorem evaluates \<^verbatim>\<open>next\<close> on such a bar:
  entry at 100, stop loss 5 percent, take profit 10 percent, close 120 below both bands;
  nothing is sold, while the same bar with the take profit alone sells.
\<close>

theorem Bol_take_profit_masked_by_stop_loss:
  "bol_order bol_holding = None \<and> position target_bar \<noteq> 0 \<and>
   take_profit_pct bol_stop_and_target = Some 10 \<and> entry_price bol_holding = Some 100 \<and>
   close target_bar > 100 * (1 + 10 / 100) \<and>
   \<not> close target_bar > bb_top target_bar \<and>
   \<not> close target_bar > bb_mid target_bar \<and>
   stop_loss_pct bol_stop_and_target = Some 5 \<and>
   \<not> close target_bar < 100 * (1 - 5 / 100) \<and>
   Bol_next bol_stop_and_target bol_holding target_bar = Inr (bol_holding, None, None) \<and>
   Bol_next bol_target_only bol_holding target_bar =
     Inr (bol_holding\<lparr>bol_order := Some sell_2\<rparr>, Some sell_2, Some TakeProfit)"
  by (simp add: Bol_next_def Bol_exit_check_def truthy_def bol_stop_and_target_def
      bol_target_only_def bol_defaults_def bol_holding_def target_bar_def sell_2_def submit_def
      Let_def)

section \<open>Entry price and position\<close>

lemma RSI_sell_completed_keeps_buy_price:
  "status ord = Completed \<Longrightarrow> \<not> isbuy ord \<Longrightarrow>
   RSI_notify_order s ord = s\<lparr>rsi_order := None\<rparr>"
  by (simp add: RSI_notify_order_def)

lemma Bol_sell_completed_clears_entry_price:
  "status ord = Completed \<Longrightarrow> \<not> isbuy ord \<Longrightarrow>
   Bol_notify_order s ord = s\<lparr>entry_price := None, bol_order := None\<rparr>"
  by (simp add: Bol_notify_order_def)

text \<open>
  C2. The claim: the entry price is set exactly while the position is not zero, so that it
  is \<^verbatim>\<open>None\<close> again after a completed sell has closed the position.
  \<^verbatim>\<open>Bol_Strat.notify_order\<close> resets \<^verbatim>\<open>entry_price\<close> in the branch of a completed sell;
  \<^verbatim>\<open>RSI_Strat.notify_order\<close> does not reset \<^verbatim>\<open>buy_price\<close>. The theorem follows an RSI
  strategy through one round trip: a buy of 2 units is submitted and filled at 100, the
  sell of the 2 units is submitted and filled, and the state after it still has the buy
  price 100, also on the next bar, where the position is 0 and the strategy buys again.
\<close>

theorem RSI_buy_price_after_round_trip:
  "RSI_next rsi_defaults RSI_init entry_bar = Inr (RSI_init\<lparr>rsi_order := Some buy_2\<rparr>, Some buy_2) \<and>
   RSI_notify_order (RSI_init\<lparr>rsi_order := Some buy_2\<rparr>) buy_filled = rsi_holding \<and>
   RSI_next rsi_defaults rsi_holding exit_bar =
     Inr (rsi_holding\<lparr>rsi_order := Some sell_2\<rparr>, Some sell_2) \<and>
   RSI_notify_order (rsi_holding\<lparr>rsi_order := Some sell_2\<rparr>) sell_filled = rsi_holding \<and>
   buy_price rsi_holding = Some 100 \<and>
   position entry_bar = 0 \<and>
   RSI_next rsi_defaults rsi_holding entry_bar =
     Inr (rsi_holding\<lparr>rsi_order := Some buy_2\<rparr>, Some buy_2) \<and>
   entry_price (Bol_notify_order (bol_holding\<lparr>bol_order := Some sell_2\<rparr>) sell_filled) = None"
  by (simp add: RSI_next_def RSI_notify_order_def Bol_notify_order_def RSI_init_def
      rsi_defaults_def entry_bar_def exit_bar_def buy_2_def sell_2_def buy_filled_def
      sell_filled_def rsi_holding_def bol_holding_def calculate_position_size_def py_div_def
      submit_def Let_def)

section \<open>Reproducibility of the random strategy\<close>

text \<open>
  C3 as stated fails for interleaved instances. Two instances are constructed with the
  seed 42 and a trade probability of 0.5, and each receives the same bar. The first takes
  the first draw after the seeding (0.639..., no trade), the second takes the second draw
  (0.025..., a buy). An instance that runs alone submits nothing on that bar.
\<close>

theorem Rand_interleaved_counterexample:
  "Rand_run replay_seed replay_random rand_example [] [Bar entry_bar] =
     Inr ([0.025010755222666936, 0.27502931836911926, 0.22321073814882275],
          \<lparr>rand_order = None, bar_count_in_position = 0\<rparr>, [None]) \<and>
   Rand_run_interleaved replay_seed replay_random rand_example [] [Bar entry_bar] =
     Inr ([None], [Some buy_2]) \<and>
   [None] \<noteq> [Some buy_2]"
  by (simp add: Rand_run_def Rand_run_interleaved_def Rand_init_def Rand_handle_def
      Rand_next_def replay_seed_def replay_random_def rand_example_def entry_bar_def
      buy_2_def submit_def py_div_def Let_def)

text \<open>
  C3, amended. A \<^verbatim>\<open>Rand_Strat\<close> constructed with a seed and run to its last event while
  nothing else draws from the generator of the process behaves the same whatever state
  that generator was in before the construction: the run of its events gives the same
  orders, the same final state and the same generator state. So two instances with the
  same seed and the same events, run one after the other in one process, submit the same
  orders.
\<close>

theorem Rand_run_reproducible:
  assumes "seed P = Some n"
  shows "Rand_run seedf randomf P g evs = Rand_run seedf randomf P g' evs \<and>
         (Rand_run_sequential seedf randomf P g evs = Inr (ds1, ds2) \<longrightarrow> ds1 = ds2)"
proof -
  have same: "Rand_run seedf randomf P g evs = Rand_run seedf randomf P h evs" for g h
    using assms by (simp add: Rand_run_def Rand_init_def)
  have "ds1 = ds2" if "Rand_run_sequential seedf randomf P g evs = Inr (ds1, ds2)"
  proof (cases "Rand_run seedf randomf P g evs")
    case (Inl e)
    with that show ?thesis by (simp add: Rand_run_sequential_def)
  next
    case (Inr r)
    obtain g1 s1 d1 where r: "r = (g1, s1, d1)" by (cases r)
    from same [of g1 g] Inr r have "Rand_run seedf randomf P g1 evs = Inr (g1, s1, d1)"
      by simp
    with that Inr r show ?thesis by (auto simp add: Rand_run_sequential_def)
  qed
  with same [of g g'] show ?thesis by blast
qed

theorem Rand_run_reproducible_witness:
  "seed rand_example = Some 42 \<and>
   Rand_run replay_seed replay_random rand_example [] [Bar entry_bar, Bar entry_bar] =
   Rand_run replay_seed replay_random rand_example [0.75, 0.5] [Bar entry_bar, Bar entry_bar] \<and>
   Rand_run replay_seed replay_random rand_example [0.75, 0.5] [Bar entry_bar, Bar entry_bar] =
     Inr ([0.27502931836911926, 0.22321073814882275],
          \<lparr>rand_order = Some buy_2, bar_count_in_position = 0\<rparr>, [None, Some buy_2]) \<and>
   Rand_run_sequential replay_seed replay_random rand_example [] [Bar entry_bar, Bar entry_bar] =
     Inr ([None, Some buy_2], [None, Some buy_2])"
proof -
  have sd: "seed rand_example = Some 42" by (simp add: rand_example_def)
  have run: "Rand_run replay_seed replay_random rand_example g [Bar entry_bar, Bar entry_bar] =
     Inr ([0.27502931836911926, 0.22321073814882275],
          \<lparr>rand_order = Some buy_2, bar_count_in_position = 0\<rparr>, [None, Some buy_2])" for g
    by (simp add: Rand_run_def Rand_init_def Rand_handle_def
      Rand_next_def replay_seed_def replay_random_def rand_example_def entry_bar_def
      buy_2_def submit_def py_div_def Let_def)
  have seq: "Rand_run_sequential replay_seed replay_random rand_example []
        [Bar entry_bar, Bar entry_bar] = Inr ([None, Some buy_2], [None, Some buy_2])"
    by (simp add: Rand_run_sequential_def run)
  from Rand_run_reproducible [OF sd, of replay_seed replay_random "[]"
      "[Bar entry_bar, Bar entry_bar]" "[0.75, 0.5]" "[None, Some buy_2]" "[None, Some buy_2]"]
    sd run [of "[0.75, 0.5]"] seq
  show ?thesis by blast
qed


end
